theory Spec2Isabelle
  imports Complex_Main
begin

section \<open>Decimal amounts and timestamps\<close>

text \<open>
  The order code computes with Python \<^verbatim>\<open>Decimal\<close> values. A finite \<^verbatim>\<open>Decimal\<close> is
  modelled by the rational number it denotes; sums, products, quotients and comparisons
  are then the exact ones. The arithmetic context (28 significant digits) is not part of
  the model: every money column is a \<^verbatim>\<open>DecimalField(max_digits=10, decimal_places=2)\<close>,
  and the products and sums the code forms from such values stay far below that limit,
  where the context never rounds. Timestamps are points of a linear order.
\<close>

type_synonym decimal = rat

type_synonym datetime = int

text \<open>
  \<^verbatim>\<open>x.quantize(Decimal('0.01'), rounding=ROUND_HALF_UP)\<close>: the nearest multiple of 0.01;
  a value exactly half-way between two multiples goes to the one farther from zero
  (this is what the \<^verbatim>\<open>decimal\<close> module calls \<^verbatim>\<open>ROUND_HALF_UP\<close>).
  \<open>round_half_up\<close> computes the number of hundredths.
\<close>

definition round_half_up :: "rat \<Rightarrow> int" where
  "round_half_up x = (if 0 \<le> x then \<lfloor>x + 1 / 2\<rfloor> else - \<lfloor>- x + 1 / 2\<rfloor>)"

definition quantize_cents :: "decimal \<Rightarrow> decimal" where
  "quantize_cents x = of_int (round_half_up (x * 100)) / 100"

section \<open>Coupons (orders/models.py)\<close>

text \<open>
  The nullable columns are options. \<open>discount_type\<close> is a character column that the code
  compares with the literal \<^verbatim>\<open>'percentage'\<close>; \<open>usage_limit\<close> and \<open>usage_count\<close> are
  \<^verbatim>\<open>PositiveIntegerField\<close>s (zero is allowed).
\<close>

record coupon =
  code :: string
  discount_type :: string
  discount_value :: decimal
  minimum_order_amount :: "decimal option"
  maximum_discount_amount :: "decimal option"
  usage_limit :: "nat option"
  usage_count :: nat
  is_active :: bool
  valid_from :: datetime
  valid_until :: "datetime option"

text \<open>
  \<^verbatim>\<open>Coupon.is_valid\<close>; the current time, read from the clock in the source, is an argument.
  A Python condition \<^verbatim>\<open>if self.f and ...\<close> on a nullable field is false for \<^verbatim>\<open>None\<close> and
  for a zero number; a \<^verbatim>\<open>datetime\<close> is never false.
\<close>

definition is_valid :: "coupon \<Rightarrow> datetime \<Rightarrow> bool" where
  "is_valid self now =
     (if \<not> is_active self then False
      else if valid_from self > now then False
      else if (case valid_until self of None \<Rightarrow> False | Some u \<Rightarrow> u < now) then False
      else if (case usage_limit self of None \<Rightarrow> False
               | Some l \<Rightarrow> l \<noteq> 0 \<and> usage_count self \<ge> l) then False
      else True)"

text \<open>\<^verbatim>\<open>Coupon.calculate_discount\<close>. The result is returned as computed: the source does not round it.\<close>

definition calculate_discount :: "coupon \<Rightarrow> datetime \<Rightarrow> decimal \<Rightarrow> decimal" where
  "calculate_discount self now order_amount =
     (if \<not> is_valid self now then 0
      else if (case minimum_order_amount self of None \<Rightarrow> False
               | Some m \<Rightarrow> m \<noteq> 0 \<and> order_amount < m) then 0
      else
        let discount = (if discount_type self = ''percentage''
                        then order_amount * (discount_value self / 100)
                        else discount_value self);
            discount = (case maximum_discount_amount self of
                          None \<Rightarrow> discount
                        | Some m \<Rightarrow> if m \<noteq> 0 then min discount m else discount)
        in min discount order_amount)"

section \<open>Tax and shipping (orders/utils.py)\<close>

definition calculate_tax :: "decimal \<Rightarrow> decimal \<Rightarrow> decimal" where
  "calculate_tax amount tax_rate =
     (let tax_amount = amount * (tax_rate / 100) in quantize_cents tax_amount)"

text \<open>
  \<^verbatim>\<open>str.lower\<close>, on the bytes of the string: the letters A to Z are mapped to a to z. The
  keys of the rate table are ASCII and no other character lowers to a letter that occurs
  in them, so membership in the table is decided as in the source.
\<close>

definition lower_char :: "char \<Rightarrow> char" where
  "lower_char c =
     (let n = (of_char c :: nat) in if 65 \<le> n \<and> n \<le> 90 then char_of (n + 32) else c)"

definition lower :: "string \<Rightarrow> string" where
  "lower s = map lower_char s"

definition FREE_SHIPPING_THRESHOLD :: decimal where
  "FREE_SHIPPING_THRESHOLD = 100"

definition shipping_rates :: "string \<rightharpoonup> decimal" where
  "shipping_rates = map_of
     [(''standard'', 599 / 100),
      (''express'', 1299 / 100),
      (''overnight'', 2499 / 100),
      (''international'', 1599 / 100)]"

definition get_shipping_cost :: "decimal \<Rightarrow> string \<Rightarrow> decimal" where
  "get_shipping_cost sub_total shipping_method =
     (if sub_total \<ge> FREE_SHIPPING_THRESHOLD then 0
      else case shipping_rates (lower shipping_method) of
             Some rate \<Rightarrow> rate
           | None \<Rightarrow> 599 / 100)"

section \<open>Orders (orders/models.py, orders/serializers.py)\<close>

datatype error =
  DoesNotExist
| ValidationError string

text \<open>The catalogue rows that order creation reads. Primary keys are numbers.\<close>

record product =
  name :: string
  sku :: string
  price :: decimal

record product_variant =
  variant_product :: nat
  variant_name :: string
  variant_sku :: string
  variant_price :: "decimal option"

text \<open>\<^verbatim>\<open>ProductVariant.effective_price\<close>: the variant's own price, or the product's.\<close>

definition effective_price :: "product_variant \<Rightarrow> product \<Rightarrow> decimal" where
  "effective_price self its_product =
     (case variant_price self of Some p \<Rightarrow> p | None \<Rightarrow> price its_product)"

text \<open>One entry of \<^verbatim>\<open>validated_data['items']\<close>.\<close>

record item_data =
  product_id :: nat
  variant_id :: "nat option"
  quantity :: int

record order_item =
  item_product :: nat
  item_variant :: "nat option"
  product_name :: string
  product_sku :: string
  unit_price :: decimal
  item_quantity :: int
  total_price :: decimal

text \<open>The columns of \<^verbatim>\<open>Order\<close> that the totals and the status rules read or write.\<close>

record order =
  status :: string
  shipping_method :: "string option"
  subtotal :: decimal
  shipping_cost :: decimal
  tax_amount :: decimal
  discount_amount :: decimal
  total_amount :: decimal

text \<open>
  The row that \<^verbatim>\<open>Order.objects.create(**validated_data)\<close> inserts for the fields that
  \<^verbatim>\<open>OrderCreateSerializer\<close> accepts: of the columns above only \<open>shipping_method\<close> is an
  input, the others take the defaults of the model.
\<close>

definition new_order :: "string option \<Rightarrow> order" where
  "new_order method =
     \<lparr>status = ''pending'', shipping_method = method, subtotal = 0, shipping_cost = 0,
      tax_amount = 0, discount_amount = 0, total_amount = 0\<rparr>"

record coupon_usage =
  usage_coupon :: string
  usage_discount_amount :: decimal

record db =
  products :: "nat \<rightharpoonup> product"
  variants :: "nat \<rightharpoonup> product_variant"
  coupons :: "string \<rightharpoonup> coupon"
  coupon_usages :: "coupon_usage list"

text \<open>
  The loop of \<^verbatim>\<open>OrderCreateSerializer.create\<close> over \<open>items_data\<close>: it resolves the unit
  price of each item, adds \<open>unit_price * quantity\<close> to the running subtotal and creates the
  order item. A missing product raises \<^verbatim>\<open>Product.DoesNotExist\<close>; a variant that does not
  exist for that product raises a validation error.
\<close>

fun create_items :: "db \<Rightarrow> item_data list \<Rightarrow> decimal \<Rightarrow> error + (decimal \<times> order_item list)" where
  "create_items d [] sub_total = Inr (sub_total, [])"
| "create_items d (item # items_data) sub_total =
     (case products d (product_id item) of
        None \<Rightarrow> Inl DoesNotExist
      | Some prd \<Rightarrow>
          (case (case variant_id item of
                   None \<Rightarrow> Inr (price prd, sku prd)
                 | Some vid \<Rightarrow>
                     (case variants d vid of
                        None \<Rightarrow> Inl (ValidationError ''Product variant does not exist.'')
                      | Some variant \<Rightarrow>
                          if variant_product variant = product_id item
                          then Inr (effective_price variant prd, variant_sku variant)
                          else Inl (ValidationError ''Product variant does not exist.''))) of
             Inl e \<Rightarrow> Inl e
           | Inr (u_price, p_sku) \<Rightarrow>
               (let t_price = u_price * of_int (quantity item) in
                case create_items d items_data (sub_total + t_price) of
                  Inl e \<Rightarrow> Inl e
                | Inr (s, created) \<Rightarrow>
                    Inr (s, \<lparr>item_product = product_id item, item_variant = variant_id item,
                             product_name = name prd, product_sku = p_sku,
                             unit_price = u_price, item_quantity = quantity item,
                             total_price = t_price\<rparr> # created))))"

text \<open>
  \<^verbatim>\<open>OrderCreateSerializer.create\<close>. \<open>order0\<close> is the row inserted at its start, \<open>coupon_code\<close>
  the optional request field (\<^verbatim>\<open>None\<close> and the empty string both skip the coupon). The
  result is the saved order, its items and the database after the call.
\<close>

definition create ::
  "db \<Rightarrow> order \<Rightarrow> item_data list \<Rightarrow> string option \<Rightarrow> datetime
     \<Rightarrow> error + (order \<times> order_item list \<times> db)" where
  "create d order0 items_data coupon_code now =
     (case create_items d items_data 0 of
        Inl e \<Rightarrow> Inl e
      | Inr (sub_total, items) \<Rightarrow>
          (let odr = order0\<lparr>subtotal := sub_total\<rparr>;
               (odr, d) =
                 (case coupon_code of
                    None \<Rightarrow> (odr, d)
                  | Some c_code \<Rightarrow>
                      if c_code = [] then (odr, d)
                      else
                        (case coupons d c_code of
                           None \<Rightarrow> (odr, d)
                         | Some cpn \<Rightarrow>
                             (let discount = calculate_discount cpn now sub_total in
                              if discount > 0
                              then (odr\<lparr>discount_amount := discount\<rparr>,
                                    d\<lparr>coupons := (coupons d)
                                         (c_code \<mapsto> cpn\<lparr>usage_count := usage_count cpn + 1\<rparr>),
                                      coupon_usages := coupon_usages d @
                                         [\<lparr>usage_coupon = c_code,
                                           usage_discount_amount = discount\<rparr>]\<rparr>)
                              else (odr, d))));
               odr = odr\<lparr>total_amount :=
                        subtotal odr + shipping_cost odr + tax_amount odr - discount_amount odr\<rparr>
           in Inr (odr, items, d)))"

text \<open>\<^verbatim>\<open>Order.calculate_totals\<close>, on the order and its item rows.\<close>

definition calculate_totals :: "order \<Rightarrow> order_item list \<Rightarrow> order" where
  "calculate_totals self items =
     (let self = self\<lparr>subtotal := sum_list (map total_price items)\<rparr>
      in self\<lparr>total_amount :=
                subtotal self + shipping_cost self + tax_amount self - discount_amount self\<rparr>)"



section \<open>Status transitions (orders/serializers.py)\<close>

definition valid_transitions :: "string \<rightharpoonup> string list" where
  "valid_transitions = map_of
     [(''pending'', [''confirmed'', ''cancelled'']),
      (''confirmed'', [''processing'', ''cancelled'']),
      (''processing'', [''shipped'', ''cancelled'']),
      (''shipped'', [''delivered'']),
      (''delivered'', [''refunded'']),
      (''cancelled'', []),
      (''refunded'', [])]"

text \<open>
  \<^verbatim>\<open>OrderStatusUpdateSerializer.validate_status\<close>: \<open>self_instance\<close> is the order being updated, if
  the serializer has one. The error carries the message of the source.
\<close>

definition validate_status :: "order option \<Rightarrow> string \<Rightarrow> error + string" where
  "validate_status self_instance v =
     (case self_instance of
        None \<Rightarrow> Inr v
      | Some inst \<Rightarrow>
          (let current_status = status inst in
           if v \<notin> set (case valid_transitions current_status of Some l \<Rightarrow> l | None \<Rightarrow> [])
           then Inl (ValidationError
                  (''Cannot change status from '' @ current_status @ '' to '' @ v @ ''.''))
           else Inr v))"

section \<open>The discount as the specification words it\<close>

text \<open>
  Steps 3 to 5 of the specification's \<^verbatim>\<open>calculate_discount\<close>, for a coupon that is valid
  and whose minimum order amount is met: the raw discount, capped at
  \<open>maximum_discount_amount\<close> whenever that field is set, capped at the order amount, and
  rounded to two decimal places. It is compared with \<open>calculate_discount\<close> below.
\<close>

definition spec_discount :: "coupon \<Rightarrow> decimal \<Rightarrow> decimal" where
  "spec_discount c order_amount =
     (let raw = (if discount_type c = ''percentage''
                 then order_amount * (discount_value c / 100)
                 else discount_value c);
          raw = (case maximum_discount_amount c of None \<Rightarrow> raw | Some m \<Rightarrow> min raw m)
      in quantize_cents (min raw order_amount))"

section \<open>Sample data\<close>

text \<open>A 15 percent coupon without limits, valid from time 0 on.\<close>

definition sample_coupon :: coupon where
  "sample_coupon =
     \<lparr>code = ''SAVE15'', discount_type = ''percentage'', discount_value = 15,
      minimum_order_amount = None, maximum_discount_amount = None, usage_limit = None,
      usage_count = 0, is_active = True, valid_from = 0, valid_until = None\<rparr>"

text \<open>A catalogue with one product at 25.00, and an order of two of them.\<close>

definition scenario_db :: db where
  "scenario_db =
     \<lparr>products = [1 \<mapsto> \<lparr>name = ''Widget'', sku = ''W-1'', price = 25\<rparr>],
      variants = Map.empty,
      coupons = Map.empty,
      coupon_usages = []\<rparr>"

definition scenario_items :: "item_data list" where
  "scenario_items = [\<lparr>product_id = 1, variant_id = None, quantity = 2\<rparr>]"

definition coupon_db :: db where
  "coupon_db = scenario_db\<lparr>coupons := [''SAVE15'' \<mapsto> sample_coupon]\<rparr>"

section \<open>Rounding to cents\<close>



section \<open>Tax\<close>



section \<open>Coupon validity\<close>

lemma is_valid_sample: "is_valid sample_coupon 5"
  by (simp add: is_valid_def sample_coupon_def)

lemma is_valid_minimum_update:
  "is_valid (self\<lparr>minimum_order_amount := x\<rparr>) now = is_valid self now"
  by (simp add: is_valid_def split: option.splits)

lemma is_valid_maximum_update:
  "is_valid (self\<lparr>maximum_discount_amount := x\<rparr>) now = is_valid self now"
  by (simp add: is_valid_def split: option.splits)

text \<open>
  Claim C4, amended. \<open>is_valid\<close> returns false if and only if the coupon is not active, or
  the current time is before \<open>valid_from\<close>, or \<open>valid_until\<close> is set and the current time
  is after it, or \<open>usage_limit\<close> is set to a number other than zero and \<open>usage_count\<close> has
  reached it. It only reads the coupon: its result is a truth value.
\<close>

theorem is_valid_false_iff:
  "(\<not> is_valid self now) =
     (\<not> is_active self \<or> now < valid_from self \<or>
      (\<exists>u. valid_until self = Some u \<and> now > u) \<or>
      (\<exists>l. usage_limit self = Some l \<and> l \<noteq> 0 \<and> usage_count self \<ge> l))"
  by (auto simp: is_valid_def split: option.splits)

theorem is_valid_false_iff_witness:
  "\<not> is_valid (sample_coupon\<lparr>usage_limit := Some 5, usage_count := 5\<rparr>) 5"
  using is_valid_false_iff [of "sample_coupon\<lparr>usage_limit := Some 5, usage_count := 5\<rparr>" 5]
  by simp

text \<open>
  The claim as stated fails for a usage limit of zero: the limit is set and the usage count
  has reached it, yet the coupon is valid.
\<close>

theorem is_valid_zero_limit_counterexample:
  "is_valid (sample_coupon\<lparr>usage_limit := Some 0\<rparr>) 5 \<and>
   usage_limit (sample_coupon\<lparr>usage_limit := Some 0\<rparr>) = Some 0 \<and>
   usage_count (sample_coupon\<lparr>usage_limit := Some 0\<rparr>) \<ge> 0"
  by (simp add: is_valid_def sample_coupon_def)

text \<open>
  Claim C10. A zero in an optional coupon field behaves as an absent value: with
  \<open>usage_limit = 0\<close> the coupon is as valid as with no limit (and can be valid although the
  usage count has reached the limit), \<open>maximum_discount_amount = 0.00\<close> caps nothing (the
  discount is not forced to 0.00), and \<open>minimum_order_amount = 0.00\<close> sets no threshold.
\<close>

theorem zero_optional_fields_absent:
  "is_valid (self\<lparr>usage_limit := Some 0\<rparr>) now = is_valid (self\<lparr>usage_limit := None\<rparr>) now \<and>
   calculate_discount (self\<lparr>maximum_discount_amount := Some 0\<rparr>) now order_amount =
     calculate_discount (self\<lparr>maximum_discount_amount := None\<rparr>) now order_amount \<and>
   calculate_discount (self\<lparr>minimum_order_amount := Some 0\<rparr>) now order_amount =
     calculate_discount (self\<lparr>minimum_order_amount := None\<rparr>) now order_amount \<and>
   is_valid (sample_coupon\<lparr>usage_limit := Some 0, usage_count := 3\<rparr>) 5 \<and>
   calculate_discount (sample_coupon\<lparr>maximum_discount_amount := Some 0\<rparr>) 5 100 = 15 \<and>
   calculate_discount (sample_coupon\<lparr>minimum_order_amount := Some 0\<rparr>) 5 100 = 15"
proof -
  have 1: "is_valid (self\<lparr>usage_limit := Some 0\<rparr>) now = is_valid (self\<lparr>usage_limit := None\<rparr>) now"
    by (simp add: is_valid_def)
  have 2: "calculate_discount (self\<lparr>maximum_discount_amount := Some 0\<rparr>) now order_amount =
     calculate_discount (self\<lparr>maximum_discount_amount := None\<rparr>) now order_amount"
    by (simp add: calculate_discount_def is_valid_maximum_update)
  have 3: "calculate_discount (self\<lparr>minimum_order_amount := Some 0\<rparr>) now order_amount =
     calculate_discount (self\<lparr>minimum_order_amount := None\<rparr>) now order_amount"
    by (simp add: calculate_discount_def is_valid_minimum_update)
  have 4: "is_valid (sample_coupon\<lparr>usage_limit := Some 0, usage_count := 3\<rparr>) 5"
    by (simp add: is_valid_def sample_coupon_def)
  have 5: "calculate_discount (sample_coupon\<lparr>maximum_discount_amount := Some 0\<rparr>) 5 100 = 15"
    by (simp add: calculate_discount_def is_valid_def sample_coupon_def)
  have 6: "calculate_discount (sample_coupon\<lparr>minimum_order_amount := Some 0\<rparr>) 5 100 = 15"
    by (simp add: calculate_discount_def is_valid_def sample_coupon_def)
  show ?thesis using 1 2 3 4 5 6 by blast
qed

theorem zero_optional_fields_absent_witness:
  "is_valid (sample_coupon\<lparr>usage_limit := Some 0\<rparr>) 5 =
     is_valid (sample_coupon\<lparr>usage_limit := None\<rparr>) 5 \<and>
   is_valid (sample_coupon\<lparr>usage_limit := Some 0, usage_count := 3\<rparr>) 5"
  using zero_optional_fields_absent [of sample_coupon 5 100] by blast

section \<open>Discounts\<close>

lemma calculate_discount_le_pos:
  "0 < calculate_discount c now a \<Longrightarrow> calculate_discount c now a \<le> a"
  by (simp add: calculate_discount_def Let_def split: if_splits)

lemma sample_discount_50: "calculate_discount sample_coupon 5 50 = 15 / 2"
  by (simp add: calculate_discount_def is_valid_def sample_coupon_def)

text \<open>
  Claim C7. For every coupon, valid or not, and every order amount that is not negative,
  the discount is at most the order amount.
\<close>

theorem calculate_discount_le_order_amount:
  "0 \<le> order_amount \<Longrightarrow> calculate_discount self now order_amount \<le> order_amount"
  by (simp add: calculate_discount_def Let_def)

theorem calculate_discount_le_order_amount_witness:
  "(0::rat) \<le> 3333 / 100 \<and> calculate_discount sample_coupon 5 (3333 / 100) \<le> 3333 / 100"
  using calculate_discount_le_order_amount [of "3333 / 100" sample_coupon 5] by simp

text \<open>
  Claim C3, amended. For a coupon that is valid at the given time and whose minimum order
  amount is met, the discount is the raw amount (\<open>order_amount * (discount_value / 100)\<close>
  for a percentage coupon, \<open>discount_value\<close> otherwise), capped at
  \<open>maximum_discount_amount\<close> when that field is set and not zero, then capped at the order
  amount. The result is not rounded.
\<close>

theorem calculate_discount_unrounded:
  assumes "is_valid self now"
    and "minimum_order_amount self = None \<or>
         (\<exists>m. minimum_order_amount self = Some m \<and> m \<le> order_amount)"
  shows "calculate_discount self now order_amount =
     (let raw = (if discount_type self = ''percentage''
                 then order_amount * (discount_value self / 100)
                 else discount_value self);
          raw = (case maximum_discount_amount self of
                   None \<Rightarrow> raw
                 | Some m \<Rightarrow> if m = 0 then raw else min raw m)
      in min raw order_amount)"
  using assms by (auto simp: calculate_discount_def Let_def split: option.splits)

theorem calculate_discount_unrounded_witness:
  "is_valid sample_coupon 5 \<and> calculate_discount sample_coupon 5 (3333 / 100) = 49995 / 10000"
proof -
  have m: "minimum_order_amount sample_coupon = None \<or>
         (\<exists>m. minimum_order_amount sample_coupon = Some m \<and> m \<le> 3333 / 100)"
    by (simp add: sample_coupon_def)
  show ?thesis
    using is_valid_sample calculate_discount_unrounded [OF is_valid_sample m]
    by (simp add: sample_coupon_def)
qed

text \<open>
  The claim as stated fails twice. Fifteen percent of 33.33 is returned as 4.9995, where
  the specification's rounded discount is 5.00; and a maximum discount amount of 0.00,
  which is a set field, leaves a discount of 15.00 where the specification's cap gives 0.00.
\<close>

theorem calculate_discount_not_rounded_counterexample:
  "is_valid sample_coupon 5 \<and>
   minimum_order_amount sample_coupon = None \<and>
   calculate_discount sample_coupon 5 (3333 / 100) = 49995 / 10000 \<and>
   spec_discount sample_coupon (3333 / 100) = 5 \<and>
   calculate_discount sample_coupon 5 (3333 / 100) \<noteq> spec_discount sample_coupon (3333 / 100) \<and>
   calculate_discount (sample_coupon\<lparr>maximum_discount_amount := Some 0\<rparr>) 5 100 = 15 \<and>
   spec_discount (sample_coupon\<lparr>maximum_discount_amount := Some 0\<rparr>) 100 = 0"
proof -
  have 2: "minimum_order_amount sample_coupon = None" by (simp add: sample_coupon_def)
  have 3: "calculate_discount sample_coupon 5 (3333 / 100) = 49995 / 10000"
    by (simp add: calculate_discount_def is_valid_def sample_coupon_def)
  have 4: "spec_discount sample_coupon (3333 / 100) = 5" by code_simp
  have 5: "calculate_discount (sample_coupon\<lparr>maximum_discount_amount := Some 0\<rparr>) 5 100 = 15"
    by (simp add: calculate_discount_def is_valid_def sample_coupon_def)
  have 6: "spec_discount (sample_coupon\<lparr>maximum_discount_amount := Some 0\<rparr>) 100 = 0"
    by code_simp
  show ?thesis unfolding 3 4 5 6 using is_valid_sample 2 by simp
qed

section \<open>Shipping\<close>

lemma lower_standard: "lower ''standard'' = ''standard''"
  by code_simp

lemma get_shipping_cost_standard_50: "get_shipping_cost 50 ''standard'' = 599 / 100"
  by (simp add: get_shipping_cost_def shipping_rates_def FREE_SHIPPING_THRESHOLD_def lower_standard)

text \<open>
  Claim C8, amended. \<open>get_shipping_cost\<close> returns 0.00 whenever the subtotal is at least
  100.00 (the boundary included). Below that it looks up the method name, converted to
  lower case, in the table standard 5.99, express 12.99, overnight 24.99, international
  15.99; a name whose lower-case form is not in the table gives the standard rate 5.99 and
  no error. In particular \<open>get_shipping_cost 100.00 standard = 0.00\<close> and
  \<open>get_shipping_cost 99.99 standard = 5.99\<close>.
\<close>

theorem get_shipping_cost_rates:
  "get_shipping_cost sub_total method =
     (if sub_total \<ge> 100 then 0
      else if lower method = ''standard'' then 599 / 100
      else if lower method = ''express'' then 1299 / 100
      else if lower method = ''overnight'' then 2499 / 100
      else if lower method = ''international'' then 1599 / 100
      else 599 / 100) \<and>
   get_shipping_cost 100 ''standard'' = 0 \<and>
   get_shipping_cost (9999 / 100) ''standard'' = 599 / 100"
  by (simp add: get_shipping_cost_def shipping_rates_def FREE_SHIPPING_THRESHOLD_def lower_standard)

theorem get_shipping_cost_rates_witness:
  "get_shipping_cost 50 ''Overnight'' = 2499 / 100"
proof -
  have "lower ''Overnight'' = ''overnight''" by code_simp
  then show ?thesis using get_shipping_cost_rates [of 50 "''Overnight''"] by simp
qed

text \<open>
  The claim as stated fails for a name that differs from a key of the table by case only:
  \<^verbatim>\<open>EXPRESS\<close> is not a key, the subtotal is below the threshold, and the cost is the
  express rate, not the standard rate.
\<close>

theorem get_shipping_cost_uppercase_counterexample:
  "shipping_rates ''EXPRESS'' = None \<and> (50 :: rat) < 100 \<and>
   get_shipping_cost 50 ''EXPRESS'' = 1299 / 100 \<and>
   get_shipping_cost 50 ''EXPRESS'' \<noteq> 599 / 100"
proof -
  have l: "lower ''EXPRESS'' = ''express''" by code_simp
  show ?thesis
    by (simp add: get_shipping_cost_def shipping_rates_def FREE_SHIPPING_THRESHOLD_def l)
qed

section \<open>Status transitions\<close>

lemma validate_status_table:
  "validate_status (Some inst) v =
     (if (status inst = ''pending'' \<and> v \<in> {''confirmed'', ''cancelled''}) \<or>
         (status inst = ''confirmed'' \<and> v \<in> {''processing'', ''cancelled''}) \<or>
         (status inst = ''processing'' \<and> v \<in> {''shipped'', ''cancelled''}) \<or>
         (status inst = ''shipped'' \<and> v = ''delivered'') \<or>
         (status inst = ''delivered'' \<and> v = ''refunded'')
      then Inr v
      else Inl (ValidationError
             (''Cannot change status from '' @ status inst @ '' to '' @ v @ ''.'')))"
  by (auto simp: validate_status_def valid_transitions_def Let_def)

text \<open>
  Claim C5. For an order in status \<open>status inst\<close>, \<open>validate_status\<close> accepts the
  requested status exactly when the table allows it (pending to confirmed or cancelled,
  confirmed to processing or cancelled, processing to shipped or cancelled, shipped to
  delivered, delivered to refunded, nothing from cancelled or refunded), and otherwise fails
  with a validation error that names both statuses. In particular shipped to delivered is
  accepted, shipped to cancelled is rejected, and the terminal statuses cancelled and
  refunded reject every request.
\<close>

theorem validate_status_transitions:
  "validate_status (Some inst) v =
     (if (status inst = ''pending'' \<and> v \<in> {''confirmed'', ''cancelled''}) \<or>
         (status inst = ''confirmed'' \<and> v \<in> {''processing'', ''cancelled''}) \<or>
         (status inst = ''processing'' \<and> v \<in> {''shipped'', ''cancelled''}) \<or>
         (status inst = ''shipped'' \<and> v = ''delivered'') \<or>
         (status inst = ''delivered'' \<and> v = ''refunded'')
      then Inr v
      else Inl (ValidationError
             (''Cannot change status from '' @ status inst @ '' to '' @ v @ ''.''))) \<and>
   validate_status (Some (inst\<lparr>status := ''shipped''\<rparr>)) ''delivered'' = Inr ''delivered'' \<and>
   validate_status (Some (inst\<lparr>status := ''shipped''\<rparr>)) ''cancelled'' =
     Inl (ValidationError ''Cannot change status from shipped to cancelled.'') \<and>
   isl (validate_status (Some (inst\<lparr>status := ''cancelled''\<rparr>)) v) \<and>
   isl (validate_status (Some (inst\<lparr>status := ''refunded''\<rparr>)) v)"
proof -
  have 1: "validate_status (Some (inst\<lparr>status := ''shipped''\<rparr>)) ''delivered'' = Inr ''delivered''"
    by (simp add: validate_status_table)
  have 2: "validate_status (Some (inst\<lparr>status := ''shipped''\<rparr>)) ''cancelled'' =
     Inl (ValidationError ''Cannot change status from shipped to cancelled.'')"
    by (simp add: validate_status_table)
  have 3: "isl (validate_status (Some (inst\<lparr>status := ''cancelled''\<rparr>)) v)"
    by (simp add: validate_status_table)
  have 4: "isl (validate_status (Some (inst\<lparr>status := ''refunded''\<rparr>)) v)"
    by (simp add: validate_status_table)
  show ?thesis using validate_status_table [of inst v] 1 2 3 4 by blast
qed

theorem validate_status_transitions_witness:
  "validate_status (Some (new_order None)) ''confirmed'' = Inr ''confirmed'' \<and>
   isl (validate_status (Some ((new_order None)\<lparr>status := ''refunded''\<rparr>)) ''pending'')"
  using validate_status_transitions [of "new_order None" "''confirmed''"]
    validate_status_transitions [of "new_order None" "''pending''"]
  by (simp add: new_order_def)

section \<open>Order creation\<close>

text \<open>
  What the item loop returns: the running subtotal grown by the total prices of the items it
  created, each total price being unit price times quantity, for the requested products and
  quantities in their order.
\<close>

lemma create_items_result:
  "create_items d xs s = Inr (s', items) \<Longrightarrow>
     s' = s + sum_list (map total_price items) \<and>
     list_all (\<lambda>i. total_price i = unit_price i * of_int (item_quantity i)) items \<and>
     map item_quantity items = map quantity xs \<and>
     map item_product items = map product_id xs"
proof (induction xs arbitrary: s s' items)
  case Nil
  then show ?case by simp
next
  case (Cons x xs)
  from Cons.prems obtain prd u_price p_sku s2 created where
    p: "products d (product_id x) = Some prd"
    and r: "create_items d xs (s + u_price * of_int (quantity x)) = Inr (s2, created)"
    and res: "s' = s2"
      "items = \<lparr>item_product = product_id x, item_variant = variant_id x,
                product_name = name prd, product_sku = p_sku,
                unit_price = u_price, item_quantity = quantity x,
                total_price = u_price * of_int (quantity x)\<rparr> # created"
    by (auto simp: Let_def split: option.splits sum.splits if_splits prod.splits)
  from Cons.IH [OF r] show ?case unfolding res by simp
qed

text \<open>The two ways \<open>create\<close> can succeed: with a coupon applied, or without.\<close>

lemma create_Inr:
  assumes "create d order0 xs cc now = Inr (odr, items, d')"
  shows "\<exists>sub. create_items d xs 0 = Inr (sub, items) \<and>
     ((\<exists>c_code cpn. cc = Some c_code \<and> c_code \<noteq> [] \<and> coupons d c_code = Some cpn \<and>
          0 < calculate_discount cpn now sub \<and>
          odr = order0\<lparr>subtotal := sub, discount_amount := calculate_discount cpn now sub,
                  total_amount := sub + shipping_cost order0 + tax_amount order0
                                    - calculate_discount cpn now sub\<rparr> \<and>
          d' = d\<lparr>coupons := (coupons d)(c_code \<mapsto> cpn\<lparr>usage_count := usage_count cpn + 1\<rparr>),
                 coupon_usages := coupon_usages d @
                   [\<lparr>usage_coupon = c_code,
                     usage_discount_amount = calculate_discount cpn now sub\<rparr>]\<rparr>)
      \<or> ((cc = None \<or> cc = Some [] \<or> (\<exists>c_code. cc = Some c_code \<and> coupons d c_code = None) \<or>
           (\<exists>c_code cpn. cc = Some c_code \<and> coupons d c_code = Some cpn \<and>
               calculate_discount cpn now sub \<le> 0)) \<and>
          odr = order0\<lparr>subtotal := sub,
                  total_amount := sub + shipping_cost order0 + tax_amount order0
                                    - discount_amount order0\<rparr> \<and>
          d' = d))"
  using assms unfolding create_def Let_def
  by (auto split: sum.splits prod.splits option.splits if_splits)

lemma sum_list_total_price:
  "list_all (\<lambda>i. total_price i = unit_price i * of_int (item_quantity i)) items \<Longrightarrow>
   sum_list (map total_price items) =
   sum_list (map (\<lambda>i. unit_price i * of_int (item_quantity i)) items)"
  by (induction items) auto

lemma sum_list_nonneg_prices:
  "list_all (\<lambda>i. 0 \<le> unit_price i \<and> 0 \<le> item_quantity i) items \<Longrightarrow>
   0 \<le> sum_list (map (\<lambda>i. unit_price i * of_int (item_quantity i)) items)"
  by (induction items) auto

text \<open>The two sample orders, evaluated.\<close>

lemma scenario_create_items:
  "create_items scenario_db scenario_items 0 =
     Inr (50, [\<lparr>item_product = 1, item_variant = None, product_name = ''Widget'',
                 product_sku = ''W-1'', unit_price = 25, item_quantity = 2, total_price = 50\<rparr>])"
  by (simp add: scenario_db_def scenario_items_def)

lemma scenario_create:
  "create scenario_db (new_order (Some ''standard'')) scenario_items None 0 =
     Inr (\<lparr>status = ''pending'', shipping_method = Some ''standard'', subtotal = 50,
            shipping_cost = 0, tax_amount = 0, discount_amount = 0, total_amount = 50\<rparr>,
          [\<lparr>item_product = 1, item_variant = None, product_name = ''Widget'',
            product_sku = ''W-1'', unit_price = 25, item_quantity = 2, total_price = 50\<rparr>],
          scenario_db)"
  by (simp add: create_def scenario_create_items new_order_def)

lemma coupon_create_items:
  "create_items coupon_db scenario_items 0 =
     Inr (50, [\<lparr>item_product = 1, item_variant = None, product_name = ''Widget'',
                 product_sku = ''W-1'', unit_price = 25, item_quantity = 2, total_price = 50\<rparr>])"
  by (simp add: coupon_db_def scenario_db_def scenario_items_def)

lemma coupon_create:
  "create coupon_db (new_order (Some ''standard'')) scenario_items (Some ''SAVE15'') 5 =
     Inr (\<lparr>status = ''pending'', shipping_method = Some ''standard'', subtotal = 50,
            shipping_cost = 0, tax_amount = 0, discount_amount = 15 / 2, total_amount = 85 / 2\<rparr>,
          [\<lparr>item_product = 1, item_variant = None, product_name = ''Widget'',
            product_sku = ''W-1'', unit_price = 25, item_quantity = 2, total_price = 50\<rparr>],
          coupon_db\<lparr>coupons := [''SAVE15'' \<mapsto> sample_coupon\<lparr>usage_count := 1\<rparr>],
                    coupon_usages := [\<lparr>usage_coupon = ''SAVE15'', usage_discount_amount = 15 / 2\<rparr>]\<rparr>)"
proof -
  have u: "usage_count sample_coupon = 0" by (simp add: sample_coupon_def)
  show ?thesis
    unfolding create_def coupon_create_items
    by (simp add: Let_def new_order_def coupon_db_def scenario_db_def u sample_discount_50)
qed

text \<open>
  Claim C1, amended. Creating an order computes, in this order: the subtotal, as the sum of
  unit price times quantity over the items; the discount, computed against the subtotal by
  the coupon's \<open>calculate_discount\<close> and applied only when a coupon code is given, names an
  existing coupon and yields a positive discount. Shipping cost and tax are not computed:
  they keep the values of the order row (0.00 for an order created through the serializer,
  whatever its shipping method), and neither \<open>get_shipping_cost\<close> nor \<open>calculate_tax\<close> is
  called. The total is \<open>subtotal + shipping - discount + tax\<close>, without clamping. For two
  items at 25.00, no coupon and shipping method standard the totals are subtotal 50.00,
  shipping 0.00, tax 0.00, discount 0.00, total 50.00.
\<close>

theorem create_totals:
  "(create d order0 items_data coupon_code now = Inr (odr, items, d') \<longrightarrow>
      subtotal odr = sum_list (map (\<lambda>i. unit_price i * of_int (item_quantity i)) items) \<and>
      map item_quantity items = map quantity items_data \<and>
      discount_amount odr =
        (case coupon_code of
           None \<Rightarrow> discount_amount order0
         | Some c_code \<Rightarrow>
             (case coupons d c_code of
                None \<Rightarrow> discount_amount order0
              | Some cpn \<Rightarrow>
                  if c_code \<noteq> [] \<and> 0 < calculate_discount cpn now (subtotal odr)
                  then calculate_discount cpn now (subtotal odr)
                  else discount_amount order0)) \<and>
      shipping_cost odr = shipping_cost order0 \<and>
      tax_amount odr = tax_amount order0 \<and>
      total_amount odr = subtotal odr + shipping_cost odr - discount_amount odr + tax_amount odr) \<and>
   create scenario_db (new_order (Some ''standard'')) scenario_items None 0 =
     Inr (\<lparr>status = ''pending'', shipping_method = Some ''standard'', subtotal = 50,
            shipping_cost = 0, tax_amount = 0, discount_amount = 0, total_amount = 50\<rparr>,
          [\<lparr>item_product = 1, item_variant = None, product_name = ''Widget'',
            product_sku = ''W-1'', unit_price = 25, item_quantity = 2, total_price = 50\<rparr>],
          scenario_db)"
proof -
  have "subtotal odr = sum_list (map (\<lambda>i. unit_price i * of_int (item_quantity i)) items) \<and>
      map item_quantity items = map quantity items_data \<and>
      discount_amount odr =
        (case coupon_code of
           None \<Rightarrow> discount_amount order0
         | Some c_code \<Rightarrow>
             (case coupons d c_code of
                None \<Rightarrow> discount_amount order0
              | Some cpn \<Rightarrow>
                  if c_code \<noteq> [] \<and> 0 < calculate_discount cpn now (subtotal odr)
                  then calculate_discount cpn now (subtotal odr)
                  else discount_amount order0)) \<and>
      shipping_cost odr = shipping_cost order0 \<and>
      tax_amount odr = tax_amount order0 \<and>
      total_amount odr = subtotal odr + shipping_cost odr - discount_amount odr + tax_amount odr"
    if a: "create d order0 items_data coupon_code now = Inr (odr, items, d')"
  proof -
    from create_Inr [OF a] obtain sub where
      ci: "create_items d items_data 0 = Inr (sub, items)" and
      alt: "(\<exists>c_code cpn. coupon_code = Some c_code \<and> c_code \<noteq> [] \<and> coupons d c_code = Some cpn \<and>
          0 < calculate_discount cpn now sub \<and>
          odr = order0\<lparr>subtotal := sub, discount_amount := calculate_discount cpn now sub,
                  total_amount := sub + shipping_cost order0 + tax_amount order0
                                    - calculate_discount cpn now sub\<rparr> \<and>
          d' = d\<lparr>coupons := (coupons d)(c_code \<mapsto> cpn\<lparr>usage_count := usage_count cpn + 1\<rparr>),
                 coupon_usages := coupon_usages d @
                   [\<lparr>usage_coupon = c_code,
                     usage_discount_amount = calculate_discount cpn now sub\<rparr>]\<rparr>)
      \<or> ((coupon_code = None \<or> coupon_code = Some [] \<or>
           (\<exists>c_code. coupon_code = Some c_code \<and> coupons d c_code = None) \<or>
           (\<exists>c_code cpn. coupon_code = Some c_code \<and> coupons d c_code = Some cpn \<and>
               calculate_discount cpn now sub \<le> 0)) \<and>
          odr = order0\<lparr>subtotal := sub,
                  total_amount := sub + shipping_cost order0 + tax_amount order0
                                    - discount_amount order0\<rparr> \<and>
          d' = d)"
      by blast
    from create_items_result [OF ci] have
      s: "sub = sum_list (map (\<lambda>i. unit_price i * of_int (item_quantity i)) items)"
      and q: "map item_quantity items = map quantity items_data"
      by (simp_all add: sum_list_total_price)
    have sub: "subtotal odr = sub" using alt by auto
    have rest: "discount_amount odr =
        (case coupon_code of
           None \<Rightarrow> discount_amount order0
         | Some c_code \<Rightarrow>
             (case coupons d c_code of
                None \<Rightarrow> discount_amount order0
              | Some cpn \<Rightarrow>
                  if c_code \<noteq> [] \<and> 0 < calculate_discount cpn now sub
                  then calculate_discount cpn now sub
                  else discount_amount order0)) \<and>
      shipping_cost odr = shipping_cost order0 \<and>
      tax_amount odr = tax_amount order0 \<and>
      total_amount odr = sub + shipping_cost odr - discount_amount odr + tax_amount odr"
      using alt by (auto split: option.splits)
    show ?thesis using s q rest unfolding sub by simp
  qed
  then show ?thesis using scenario_create by blast
qed


theorem create_totals_witness:
  "create coupon_db (new_order (Some ''standard'')) scenario_items (Some ''SAVE15'') 5 =
     Inr (\<lparr>status = ''pending'', shipping_method = Some ''standard'', subtotal = 50,
            shipping_cost = 0, tax_amount = 0, discount_amount = 15 / 2, total_amount = 85 / 2\<rparr>,
          [\<lparr>item_product = 1, item_variant = None, product_name = ''Widget'',
            product_sku = ''W-1'', unit_price = 25, item_quantity = 2, total_price = 50\<rparr>],
          coupon_db\<lparr>coupons := [''SAVE15'' \<mapsto> sample_coupon\<lparr>usage_count := 1\<rparr>],
                    coupon_usages := [\<lparr>usage_coupon = ''SAVE15'', usage_discount_amount = 15 / 2\<rparr>]\<rparr>) \<and>
   (85 / 2 :: rat) = 50 + 0 - 15 / 2 + 0 \<and>
   create scenario_db (new_order (Some ''standard'')) scenario_items None 0 =
     Inr (\<lparr>status = ''pending'', shipping_method = Some ''standard'', subtotal = 50,
            shipping_cost = 0, tax_amount = 0, discount_amount = 0, total_amount = 50\<rparr>,
          [\<lparr>item_product = 1, item_variant = None, product_name = ''Widget'',
            product_sku = ''W-1'', unit_price = 25, item_quantity = 2, total_price = 50\<rparr>],
          scenario_db)"
  using coupon_create
    create_totals [of coupon_db "new_order (Some ''standard'')" scenario_items "Some ''SAVE15''" 5
      "\<lparr>status = ''pending'', shipping_method = Some ''standard'', subtotal = 50,
            shipping_cost = 0, tax_amount = 0, discount_amount = 15 / 2, total_amount = 85 / 2\<rparr>"
      "[\<lparr>item_product = 1, item_variant = None, product_name = ''Widget'',
            product_sku = ''W-1'', unit_price = 25, item_quantity = 2, total_price = 50\<rparr>]"
      "coupon_db\<lparr>coupons := [''SAVE15'' \<mapsto> sample_coupon\<lparr>usage_count := 1\<rparr>],
                    coupon_usages := [\<lparr>usage_coupon = ''SAVE15'', usage_discount_amount = 15 / 2\<rparr>]\<rparr>"]
  by simp

text \<open>
  The claim as stated fails on its own example: the created order has shipping 0.00, tax
  0.00 and total 50.00, where the rate table gives 5.99, the tax at 8.25 percent is 4.13 and
  the claimed total is 60.12.
\<close>

theorem create_ignores_shipping_and_tax_counterexample:
  "create scenario_db (new_order (Some ''standard'')) scenario_items None 0 =
     Inr (\<lparr>status = ''pending'', shipping_method = Some ''standard'', subtotal = 50,
            shipping_cost = 0, tax_amount = 0, discount_amount = 0, total_amount = 50\<rparr>,
          [\<lparr>item_product = 1, item_variant = None, product_name = ''Widget'',
            product_sku = ''W-1'', unit_price = 25, item_quantity = 2, total_price = 50\<rparr>],
          scenario_db) \<and>
   get_shipping_cost 50 ''standard'' = 599 / 100 \<and>
   calculate_tax 50 (825 / 100) = 413 / 100 \<and>
   (0 :: rat) \<noteq> 599 / 100 \<and> (0 :: rat) \<noteq> 413 / 100 \<and> (50 :: rat) \<noteq> 6012 / 100"
proof -
  note s = get_shipping_cost_standard_50
  have t: "calculate_tax 50 (825 / 100) = 413 / 100" by code_simp
  show ?thesis using scenario_create s t by simp
qed

section \<open>Coupon usage\<close>





section \<open>The total\<close>

text \<open>
  Claim C6. Every order that \<open>create\<close> or \<open>calculate_totals\<close> produces has
  \<open>total_amount = subtotal + shipping_cost + tax_amount - discount_amount\<close>, and the total
  is not negative when shipping cost and tax are not negative and the discount does not
  exceed the subtotal. For an order created with items of non-negative unit price and
  quantity, from a row without discount, the discount is between zero and the subtotal.
\<close>

theorem total_amount_invariant:
  "(create d order0 items_data coupon_code now = Inr (odr, items, d') \<longrightarrow>
      total_amount odr = subtotal odr + shipping_cost odr + tax_amount odr - discount_amount odr \<and>
      (0 \<le> shipping_cost odr \<and> 0 \<le> tax_amount odr \<and> discount_amount odr \<le> subtotal odr
         \<longrightarrow> 0 \<le> total_amount odr) \<and>
      (list_all (\<lambda>i. 0 \<le> unit_price i \<and> 0 \<le> item_quantity i) items \<and>
       0 \<le> shipping_cost order0 \<and> 0 \<le> tax_amount order0 \<and> discount_amount order0 = 0
         \<longrightarrow> 0 \<le> discount_amount odr \<and> discount_amount odr \<le> subtotal odr \<and>
             0 \<le> total_amount odr)) \<and>
   total_amount (calculate_totals self its) =
     subtotal (calculate_totals self its) + shipping_cost (calculate_totals self its) +
     tax_amount (calculate_totals self its) - discount_amount (calculate_totals self its) \<and>
   (0 \<le> shipping_cost self \<and> 0 \<le> tax_amount self \<and>
    discount_amount self \<le> sum_list (map total_price its)
      \<longrightarrow> 0 \<le> total_amount (calculate_totals self its))"
proof -
  have A: "total_amount odr = subtotal odr + shipping_cost odr + tax_amount odr - discount_amount odr \<and>
      (0 \<le> shipping_cost odr \<and> 0 \<le> tax_amount odr \<and> discount_amount odr \<le> subtotal odr
         \<longrightarrow> 0 \<le> total_amount odr) \<and>
      (list_all (\<lambda>i. 0 \<le> unit_price i \<and> 0 \<le> item_quantity i) items \<and>
       0 \<le> shipping_cost order0 \<and> 0 \<le> tax_amount order0 \<and> discount_amount order0 = 0
         \<longrightarrow> 0 \<le> discount_amount odr \<and> discount_amount odr \<le> subtotal odr \<and>
             0 \<le> total_amount odr)"
    if a: "create d order0 items_data coupon_code now = Inr (odr, items, d')"
  proof -
    from create_Inr [OF a] obtain sub where
      ci: "create_items d items_data 0 = Inr (sub, items)" and
      alt: "(\<exists>cpn. 0 < calculate_discount cpn now sub \<and>
          odr = order0\<lparr>subtotal := sub, discount_amount := calculate_discount cpn now sub,
                  total_amount := sub + shipping_cost order0 + tax_amount order0
                                    - calculate_discount cpn now sub\<rparr>)
      \<or> odr = order0\<lparr>subtotal := sub,
                  total_amount := sub + shipping_cost order0 + tax_amount order0
                                    - discount_amount order0\<rparr>"
      by blast
    from create_items_result [OF ci] have
      s: "sub = sum_list (map (\<lambda>i. unit_price i * of_int (item_quantity i)) items)"
      by (simp add: sum_list_total_price)
    have t: "total_amount odr = subtotal odr + shipping_cost odr + tax_amount odr - discount_amount odr"
      using alt by auto
    have n: "0 \<le> sub" if "list_all (\<lambda>i. 0 \<le> unit_price i \<and> 0 \<le> item_quantity i) items"
      unfolding s using that by (rule sum_list_nonneg_prices)
    have dd: "0 \<le> discount_amount odr \<and> discount_amount odr \<le> subtotal odr"
      if "list_all (\<lambda>i. 0 \<le> unit_price i \<and> 0 \<le> item_quantity i) items"
        and "discount_amount order0 = 0"
      using alt n [OF that(1)] that(2) calculate_discount_le_pos by auto
    have sc: "shipping_cost odr = shipping_cost order0" "tax_amount odr = tax_amount order0"
      using alt by auto
    show ?thesis using t dd sc by auto
  qed
  have B: "total_amount (calculate_totals self its) =
     subtotal (calculate_totals self its) + shipping_cost (calculate_totals self its) +
     tax_amount (calculate_totals self its) - discount_amount (calculate_totals self its)"
    by (simp add: calculate_totals_def Let_def)
  have C: "0 \<le> total_amount (calculate_totals self its)"
    if "0 \<le> shipping_cost self \<and> 0 \<le> tax_amount self \<and>
        discount_amount self \<le> sum_list (map total_price its)"
    using that by (simp add: calculate_totals_def Let_def)
  show ?thesis using A B C by blast
qed


theorem total_amount_invariant_witness:
  "total_amount \<lparr>status = ''pending'', shipping_method = Some ''standard'', subtotal = 50,
            shipping_cost = 0, tax_amount = 0, discount_amount = 15 / 2, total_amount = 85 / 2\<rparr>
     = 50 + 0 + 0 - 15 / 2 \<and>
   (0 :: rat) \<le> 85 / 2 \<and> (15 / 2 :: rat) \<le> 50"
  using coupon_create
    total_amount_invariant [of coupon_db "new_order (Some ''standard'')" scenario_items
      "Some ''SAVE15''" 5
      "\<lparr>status = ''pending'', shipping_method = Some ''standard'', subtotal = 50,
            shipping_cost = 0, tax_amount = 0, discount_amount = 15 / 2, total_amount = 85 / 2\<rparr>"
      "[\<lparr>item_product = 1, item_variant = None, product_name = ''Widget'',
            product_sku = ''W-1'', unit_price = 25, item_quantity = 2, total_price = 50\<rparr>]"
      "coupon_db\<lparr>coupons := [''SAVE15'' \<mapsto> sample_coupon\<lparr>usage_count := 1\<rparr>],
                    coupon_usages := [\<lparr>usage_coupon = ''SAVE15'', usage_discount_amount = 15 / 2\<rparr>]\<rparr>"]
  by (simp add: new_order_def)


end
